theory Spec2Isabelle
  imports Complex_Main "HOL-Library.Word" "HOL-Library.List_Lexorder" "HOL-Library.Sublist"
    "HOL-Library.AList"
begin

section \<open>JavaScript strings\<close>

text \<open>
  A JavaScript string is a sequence of 16-bit code units: \<open>s.length\<close> counts code units,
  \<open>s[i]\<close> reads one, and IndexedDB orders string keys by comparing code units from the
  left, a proper prefix coming first. That is the lexicographic order of lists of
  16-bit words.
\<close>

type_synonym jsstring = "16 word list"

definition str :: "string \<Rightarrow> jsstring" where
  "str s = map of_char s"

text \<open>\<open>String.fromCharCode(0xffff)\<close>, the sentinel of \<open>createRange.prefix\<close>.\<close>

definition MAX_CHAR :: "16 word" where
  "MAX_CHAR = 0xFFFF"

text \<open>
  The code units matched by the regular expression class \<open>\s\<close>, which are also the ones
  \<open>String.prototype.trim\<close> strips (WhiteSpace and LineTerminator of ECMAScript).
\<close>

definition isWhiteSpace :: "16 word \<Rightarrow> bool" where
  "isWhiteSpace c \<longleftrightarrow>
     c \<in> {0x09, 0x0A, 0x0B, 0x0C, 0x0D, 0x20, 0xA0, 0x1680, 0x2028, 0x2029, 0x202F,
          0x205F, 0x3000, 0xFEFF} \<or> (0x2000 \<le> c \<and> c \<le> 0x200A)"

definition trim :: "jsstring \<Rightarrow> jsstring" where
  "trim s = rev (dropWhile isWhiteSpace (rev (dropWhile isWhiteSpace s)))"

text \<open>
  \<open>s.split(/\s+/)\<close>: the pieces between maximal runs of white space. A string that starts
  or ends with white space yields an empty first or last piece, and the empty string
  yields one empty piece.
\<close>

function splitWs_from :: "jsstring \<Rightarrow> jsstring \<Rightarrow> jsstring list" where
  "splitWs_from piece [] = [piece]"
| "splitWs_from piece (c # cs) =
     (if isWhiteSpace c then piece # splitWs_from [] (dropWhile isWhiteSpace cs)
      else splitWs_from (piece @ [c]) cs)"
  by pat_completeness auto
termination
  by (relation "measure (\<lambda>(piece, s). length s)")
     (auto simp: less_Suc_eq_le length_dropWhile_le)

definition splitWs :: "jsstring \<Rightarrow> jsstring list" where
  "splitWs s = splitWs_from [] s"

text \<open>\<open>text.includes(term)\<close>: the term occurs as a contiguous run of code units.\<close>

fun str_includes :: "jsstring \<Rightarrow> jsstring \<Rightarrow> bool" where
  "str_includes [] term = (term = [])"
| "str_includes (c # cs) term = (prefix term (c # cs) \<or> str_includes cs term)"

text \<open>\<open>s.split("T")[0]\<close>: what precedes the first \<open>T\<close>, the whole string when there is none.\<close>

definition beforeT :: "jsstring \<Rightarrow> jsstring" where
  "beforeT s = takeWhile (\<lambda>c. c \<noteq> 0x54) s"

section \<open>Errors and the connection\<close>

text \<open>
  The engine rejects with strings; each constructor stands for one message template of
  the source (or for the exception of the host that the source lets escape).
\<close>

datatype 'k error =
    ErrorOpeningDatabase
  | ErrorAddingItem
  | ErrorInBulkAdd
  | ItemNotFoundForUpdate 'k
  | ErrorUpdatingItem "'k error"
  | DataError
  | RegExpSyntaxError
  | InvalidTimeValue
  | NoDailyReportsFound jsstring

text \<open>
  Every method starts with \<open>await this.connect()\<close>. The flag says whether that resolves:
  the handle \<open>this.db\<close> is already set, or \<open>indexedDB.open\<close> succeeds. After it resolved,
  \<open>this.db\<close> is set, so the check \<open>if (!this.db)\<close> that follows never fires.
\<close>

definition connect :: "bool \<Rightarrow> 'k error + unit" where
  "connect available = (if available then Inr () else Inl ErrorOpeningDatabase)"

section \<open>The object store of the host\<close>

text \<open>
  An object store with a key path holds one record per key and enumerates its records in
  ascending key order. It is modelled as the list of its records in that order;
  \<open>keyOf\<close> reads the key path of a record. The functions of this section are those of
  \<open>IDBObjectStore\<close> and \<open>IDBKeyRange\<close>, which the engine calls.
\<close>

definition store_inv :: "('r \<Rightarrow> 'k::linorder) \<Rightarrow> 'r list \<Rightarrow> bool" where
  "store_inv keyOf s \<longleftrightarrow> sorted_wrt (<) (map keyOf s)"

definition store_get :: "('r \<Rightarrow> 'k) \<Rightarrow> 'r list \<Rightarrow> 'k \<Rightarrow> 'r option" where
  "store_get keyOf s k = find (\<lambda>r. keyOf r = k) s"

definition store_delete :: "('r \<Rightarrow> 'k) \<Rightarrow> 'r list \<Rightarrow> 'k \<Rightarrow> 'r list" where
  "store_delete keyOf s k = filter (\<lambda>r. keyOf r \<noteq> k) s"

definition store_put :: "('r \<Rightarrow> 'k::linorder) \<Rightarrow> 'r list \<Rightarrow> 'r \<Rightarrow> 'r list" where
  "store_put keyOf s r = insort_key keyOf r (store_delete keyOf s (keyOf r))"

text \<open>\<open>store.add\<close> fails with a ConstraintError (\<open>None\<close>) when the key is taken.\<close>

definition store_add :: "('r \<Rightarrow> 'k::linorder) \<Rightarrow> 'r list \<Rightarrow> 'r \<Rightarrow> 'r list option" where
  "store_add keyOf s r =
     (if store_get keyOf s (keyOf r) = None then Some (insort_key keyOf r s) else None)"

record 'k IDBKeyRange =
  lower :: "'k option"
  upper :: "'k option"
  lowerOpen :: bool
  upperOpen :: bool

definition inRange :: "('k::linorder) IDBKeyRange \<Rightarrow> 'k \<Rightarrow> bool" where
  "inRange rg k \<longleftrightarrow>
     (case lower rg of None \<Rightarrow> True
      | Some l \<Rightarrow> if lowerOpen rg then l < k else l \<le> k) \<and>
     (case upper rg of None \<Rightarrow> True
      | Some u \<Rightarrow> if upperOpen rg then k < u else k \<le> u)"

datatype IDBCursorDirection = Next | NextUnique | Prev | PrevUnique

text \<open>
  The records a cursor opened on the store itself visits, in order. Keys are unique in
  an object store, so the two unique directions visit what the plain ones do.
\<close>

definition openCursor ::
  "('r \<Rightarrow> 'k::linorder) \<Rightarrow> 'r list \<Rightarrow> 'k IDBKeyRange option \<Rightarrow> IDBCursorDirection \<Rightarrow> 'r list" where
  "openCursor keyOf s rg dir =
     (let visited = (case rg of None \<Rightarrow> s | Some g \<Rightarrow> filter (\<lambda>r. inRange g (keyOf r)) s)
      in case dir of Next \<Rightarrow> visited | NextUnique \<Rightarrow> visited
         | Prev \<Rightarrow> rev visited | PrevUnique \<Rightarrow> rev visited)"

section \<open>The engine: class IndexedDB of db.ts\<close>

text \<open>
  A store is passed in and, by the methods that write, returned. A write runs in one
  transaction of the host: when its request fails, the store is as it was before. The
  records of a store are objects (they carry the key path), so the test
  \<open>!currentValue\<close> of \<open>update\<close> holds exactly when \<open>get\<close> found nothing.
\<close>

definition add ::
  "bool \<Rightarrow> ('r \<Rightarrow> 'k::linorder) \<Rightarrow> 'r list \<Rightarrow> 'r \<Rightarrow> ('k error + 'k) \<times> 'r list" where
  "add available keyOf s itm =
     (case connect available of
        Inl e \<Rightarrow> (Inl e, s)
      | Inr _ \<Rightarrow>
          (case store_add keyOf s itm of
             None \<Rightarrow> (Inl ErrorAddingItem, s)
           | Some s' \<Rightarrow> (Inr (keyOf itm), s')))"

text \<open>
  \<open>addMultiple\<close> issues every \<open>store.add\<close> in one transaction and resolves when the
  transaction completes. A request that fails aborts the transaction, which undoes the
  adds made in it and fires \<open>transaction.onerror\<close>.
\<close>

fun addEach :: "('r \<Rightarrow> 'k::linorder) \<Rightarrow> 'r list \<Rightarrow> 'r list \<Rightarrow> 'r list option" where
  "addEach keyOf s [] = Some s"
| "addEach keyOf s (itm # items) =
     (case store_add keyOf s itm of
        None \<Rightarrow> None
      | Some s' \<Rightarrow> addEach keyOf s' items)"

definition addMultiple ::
  "bool \<Rightarrow> ('r \<Rightarrow> 'k::linorder) \<Rightarrow> 'r list \<Rightarrow> 'r list \<Rightarrow> ('k error + unit) \<times> 'r list" where
  "addMultiple available keyOf s items =
     (case connect available of
        Inl e \<Rightarrow> (Inl e, s)
      | Inr _ \<Rightarrow>
          (case addEach keyOf s items of
             None \<Rightarrow> (Inl ErrorInBulkAdd, s)
           | Some s' \<Rightarrow> (Inr (), s')))"

definition put ::
  "bool \<Rightarrow> ('r \<Rightarrow> 'k::linorder) \<Rightarrow> 'r list \<Rightarrow> 'r \<Rightarrow> ('k error + 'k) \<times> 'r list" where
  "put available keyOf s itm =
     (case connect available of
        Inl e \<Rightarrow> (Inl e, s)
      | Inr _ \<Rightarrow> (Inr (keyOf itm), store_put keyOf s itm))"

definition get :: "bool \<Rightarrow> ('r \<Rightarrow> 'k) \<Rightarrow> 'r list \<Rightarrow> 'k \<Rightarrow> 'k error + 'r option" where
  "get available keyOf s key =
     (case connect available of
        Inl e \<Rightarrow> Inl e
      | Inr _ \<Rightarrow> Inr (store_get keyOf s key))"

definition update ::
  "bool \<Rightarrow> ('r \<Rightarrow> 'k::linorder) \<Rightarrow> 'r list \<Rightarrow> 'k \<Rightarrow> ('r \<Rightarrow> 'r) \<Rightarrow> ('k error + 'r) \<times> 'r list" where
  "update available keyOf s key updateFn =
     (case connect available of
        Inl e \<Rightarrow> (Inl e, s)
      | Inr _ \<Rightarrow>
          (case get available keyOf s key of
             Inl e \<Rightarrow> (Inl (ErrorUpdatingItem e), s)
           | Inr None \<Rightarrow> (Inl (ItemNotFoundForUpdate key), s)
           | Inr (Some currentValue) \<Rightarrow>
               (let updatedValue = updateFn currentValue in
                case put available keyOf s updatedValue of
                  (Inl e, s') \<Rightarrow> (Inl (ErrorUpdatingItem e), s')
                | (Inr _, s') \<Rightarrow> (Inr updatedValue, s'))))"

definition delete ::
  "bool \<Rightarrow> ('r \<Rightarrow> 'k) \<Rightarrow> 'r list \<Rightarrow> 'k \<Rightarrow> ('k error + unit) \<times> 'r list" where
  "delete available keyOf s key =
     (case connect available of
        Inl e \<Rightarrow> (Inl e, s)
      | Inr _ \<Rightarrow> (Inr (), store_delete keyOf s key))"

definition clear :: "bool \<Rightarrow> 'r list \<Rightarrow> ('k error + unit) \<times> 'r list" where
  "clear available s =
     (case connect available of
        Inl e \<Rightarrow> (Inl e, s)
      | Inr _ \<Rightarrow> (Inr (), []))"

definition getAll :: "bool \<Rightarrow> 'r list \<Rightarrow> 'k error + 'r list" where
  "getAll available s =
     (case connect available of
        Inl e \<Rightarrow> Inl e
      | Inr _ \<Rightarrow> Inr s)"

text \<open>
  The parameters of \<open>search\<close>. The parameter \<open>index\<close> is left out: no caller in the
  repository passes one, and the cursor then runs over the store itself. \<open>None\<close> is a
  parameter that is not given.
\<close>

record ('r, 'k) searchParams =
  keyRange :: "'k IDBKeyRange option"
  searchLimit :: "int option"
  direction :: "IDBCursorDirection option"
  filter_fn :: "('r \<Rightarrow> bool) option"

text \<open>
  The \<open>onsuccess\<close> handler of the cursor request, once per visited record: push the record
  when there is no filter or the filter accepts it, then resolve when a limit is given,
  is not 0, and is reached; otherwise \<open>cursor.continue()\<close>.
\<close>

fun cursorLoop :: "('r, 'k) searchParams \<Rightarrow> 'r list \<Rightarrow> 'r list \<Rightarrow> 'r list" where
  "cursorLoop ps [] results = results"
| "cursorLoop ps (itm # rest) results =
     (let results' =
        (case filter_fn ps of
           None \<Rightarrow> results @ [itm]
         | Some f \<Rightarrow> if f itm then results @ [itm] else results)
      in case searchLimit ps of
           None \<Rightarrow> cursorLoop ps rest results'
         | Some l \<Rightarrow>
             if l \<noteq> 0 \<and> l \<le> int (length results') then results'
             else cursorLoop ps rest results')"

definition search ::
  "bool \<Rightarrow> ('r \<Rightarrow> 'k::linorder) \<Rightarrow> 'r list \<Rightarrow> ('r, 'k) searchParams \<Rightarrow> 'k error + 'r list" where
  "search available keyOf s ps =
     (case connect available of
        Inl e \<Rightarrow> Inl e
      | Inr _ \<Rightarrow>
          (let dir = (case direction ps of None \<Rightarrow> Next | Some d \<Rightarrow> d)
           in Inr (cursorLoop ps (openCursor keyOf s (keyRange ps) dir) [])))"

subsection \<open>createRange\<close>

definition createRange_only :: "'k \<Rightarrow> 'k IDBKeyRange" where
  "createRange_only v = \<lparr>lower = Some v, upper = Some v, lowerOpen = False, upperOpen = False\<rparr>"

definition createRange_lessThan :: "'k \<Rightarrow> 'k IDBKeyRange" where
  "createRange_lessThan u = \<lparr>lower = None, upper = Some u, lowerOpen = True, upperOpen = True\<rparr>"

definition createRange_lessThanOrEqual :: "'k \<Rightarrow> 'k IDBKeyRange" where
  "createRange_lessThanOrEqual u =
     \<lparr>lower = None, upper = Some u, lowerOpen = True, upperOpen = False\<rparr>"

definition createRange_greaterThan :: "'k \<Rightarrow> 'k IDBKeyRange" where
  "createRange_greaterThan l = \<lparr>lower = Some l, upper = None, lowerOpen = True, upperOpen = True\<rparr>"

definition createRange_greaterThanOrEqual :: "'k \<Rightarrow> 'k IDBKeyRange" where
  "createRange_greaterThanOrEqual l =
     \<lparr>lower = Some l, upper = None, lowerOpen = False, upperOpen = True\<rparr>"

text \<open>\<open>IDBKeyRange.bound\<close> throws a DataError on an empty interval.\<close>

definition createRange_between ::
  "('k::linorder) \<Rightarrow> 'k \<Rightarrow> bool \<Rightarrow> bool \<Rightarrow> 'k error + 'k IDBKeyRange" where
  "createRange_between l u lowerExclusive upperExclusive =
     (if u < l \<or> (l = u \<and> (lowerExclusive \<or> upperExclusive)) then Inl DataError
      else Inr \<lparr>lower = Some l, upper = Some u,
                lowerOpen = lowerExclusive, upperOpen = upperExclusive\<rparr>)"

text \<open>
  \<open>prefix + MAX_CHAR\<close> is above \<open>prefix\<close>, so \<open>IDBKeyRange.bound\<close> does not throw here.
\<close>

definition createRange_prefix :: "jsstring \<Rightarrow> jsstring IDBKeyRange" where
  "createRange_prefix pfx =
     (let upperBound = pfx @ [MAX_CHAR]
      in \<lparr>lower = Some pfx, upper = Some upperBound, lowerOpen = False, upperOpen = True\<rparr>)"

section \<open>Full-text search\<close>

text \<open>
  The options of \<open>fullTextSearch\<close>. The source tests the three flags for truthiness
  only, so a flag that is not given is \<open>False\<close>. Scores are JavaScript numbers; they are
  modelled as rationals, the rounding of doubles is not.
\<close>

record options =
  limit :: "int option"
  caseSensitive :: bool
  matchWholeWord :: bool
  fuzzyMatch :: bool
  fuzzyMatchThreshold :: "rat option"

text \<open>
  Two functions of the host that the search calls: \<open>String.prototype.toLowerCase\<close>, and
  the test of a text against the regular expression built from
  \<open>\b\<close> + term + \<open>\b\<close>, with the flag \<open>i\<close> or without. The term is spliced into the pattern
  as it is, so \<open>new RegExp\<close> can throw a SyntaxError: that is \<open>None\<close>.
\<close>

record host =
  toLowerCase :: "jsstring \<Rightarrow> jsstring"
  wordRegExpTest :: "bool \<Rightarrow> jsstring \<Rightarrow> jsstring \<Rightarrow> bool option"

definition getExactMatchScore :: "host \<Rightarrow> options \<Rightarrow> jsstring \<Rightarrow> jsstring \<Rightarrow> rat option" where
  "getExactMatchScore h opts text term =
     (let processedText = (if caseSensitive opts then text else toLowerCase h text)
      in if matchWholeWord opts then
           (case wordRegExpTest h (\<not> caseSensitive opts) term processedText of
              None \<Rightarrow> None
            | Some found \<Rightarrow> Some (if found then 1 else 0))
         else Some (if str_includes processedText term then 1 else 0))"

text \<open>
  \<open>levenshteinDistance\<close> fills a matrix row by row. \<open>fillRow\<close> computes the cells
  \<open>matrix[i][j..]\<close> from the character \<open>a[i-1]\<close>, the rest of \<open>b\<close> from \<open>b[j-1]\<close> on, the
  previous row from column \<open>j-1\<close> on, and the cell \<open>matrix[i][j-1]\<close> to the left.
\<close>

fun fillRow :: "'a \<Rightarrow> 'a list \<Rightarrow> nat list \<Rightarrow> nat \<Rightarrow> nat list" where
  "fillRow ai (bj # bs) (diag # up # prev) left =
     (let cost = (if ai = bj then 0 else 1);
          cell = min (min (up + 1) (left + 1)) (diag + cost)
      in cell # fillRow ai bs (up # prev) cell)"
| "fillRow ai bs prev left = []"

fun fillMatrix :: "'a list \<Rightarrow> 'a list \<Rightarrow> nat list \<Rightarrow> nat \<Rightarrow> nat list" where
  "fillMatrix [] b row i = row"
| "fillMatrix (ai # as) b row i = fillMatrix as b (i # fillRow ai b row i) (i + 1)"

definition levenshteinDistance :: "'a list \<Rightarrow> 'a list \<Rightarrow> nat" where
  "levenshteinDistance a b = last (fillMatrix a b [0 ..< length b + 1] 1)"

definition similarityScore :: "jsstring \<Rightarrow> jsstring \<Rightarrow> rat" where
  "similarityScore word term =
     (let distance = levenshteinDistance word term;
          maxLength = max (length word) (length term)
      in 1 - of_nat distance / of_nat maxLength)"

text \<open>\<open>options.fuzzyMatchThreshold || 0.7\<close>\<close>

definition threshold :: "options \<Rightarrow> rat" where
  "threshold opts =
     (case fuzzyMatchThreshold opts of
        None \<Rightarrow> 7 / 10
      | Some t \<Rightarrow> if t = 0 then 7 / 10 else t)"

fun fuzzyLoop :: "options \<Rightarrow> jsstring \<Rightarrow> jsstring list \<Rightarrow> rat \<Rightarrow> rat" where
  "fuzzyLoop opts term [] bestScore = bestScore"
| "fuzzyLoop opts term (word # words) bestScore =
     (if length word < 3 then fuzzyLoop opts term words bestScore
      else if threshold opts \<le> similarityScore word term \<and> bestScore < similarityScore word term
        then fuzzyLoop opts term words (similarityScore word term)
        else fuzzyLoop opts term words bestScore)"

definition getFuzzyMatchScore :: "host \<Rightarrow> options \<Rightarrow> jsstring \<Rightarrow> jsstring \<Rightarrow> rat option" where
  "getFuzzyMatchScore h opts text term =
     (if length term \<le> 3 then getExactMatchScore h opts text term
      else
        (let processedText = (if caseSensitive opts then text else toLowerCase h text);
             words = splitWs processedText
         in Some (fuzzyLoop opts term words 0)))"

text \<open>The loop over the query terms for one field value, adding to \<open>totalScore\<close>.\<close>

fun scoreTerms :: "host \<Rightarrow> options \<Rightarrow> jsstring \<Rightarrow> jsstring list \<Rightarrow> rat \<Rightarrow> rat option" where
  "scoreTerms h opts text [] totalScore = Some totalScore"
| "scoreTerms h opts text (term # terms) totalScore =
     (case (if fuzzyMatch opts then getFuzzyMatchScore h opts text term
            else getExactMatchScore h opts text term) of
        None \<Rightarrow> None
      | Some sc \<Rightarrow> scoreTerms h opts text terms (totalScore + sc))"

text \<open>
  The loop over the fields of one item. \<open>fieldValue\<close> is the value the source reaches by
  walking the dotted path of the field through the item, \<open>""\<close> standing in for a missing
  property: \<open>Some\<close> of it when it is a string, \<open>None\<close> when it is not (the source then
  skips the field).
\<close>

fun scoreFields ::
  "host \<Rightarrow> options \<Rightarrow> (jsstring \<Rightarrow> jsstring option) \<Rightarrow> jsstring list \<Rightarrow> jsstring list \<Rightarrow> rat
     \<Rightarrow> rat option" where
  "scoreFields h opts fieldValue queryTerms [] totalScore = Some totalScore"
| "scoreFields h opts fieldValue queryTerms (field # fieldNames) totalScore =
     (case fieldValue field of
        None \<Rightarrow> scoreFields h opts fieldValue queryTerms fieldNames totalScore
      | Some text \<Rightarrow>
          (case scoreTerms h opts text queryTerms totalScore of
             None \<Rightarrow> None
           | Some totalScore' \<Rightarrow>
               scoreFields h opts fieldValue queryTerms fieldNames totalScore'))"

record 'r scored =
  item :: 'r
  score :: rat

definition scoreItem ::
  "host \<Rightarrow> options \<Rightarrow> ('r \<Rightarrow> jsstring \<Rightarrow> jsstring option) \<Rightarrow> jsstring list \<Rightarrow> jsstring list \<Rightarrow> 'r
     \<Rightarrow> 'r scored option" where
  "scoreItem h opts fieldValue queryTerms fieldNames itm =
     (case scoreFields h opts (fieldValue itm) queryTerms fieldNames 0 of
        None \<Rightarrow> None
      | Some totalScore \<Rightarrow> Some \<lparr>item = itm, score = totalScore\<rparr>)"

text \<open>
  \<open>sort((a, b) => b.score - a.score)\<close> is a stable sort by descending score; so is
  \<open>sort_key\<close> on the negated score.
\<close>

definition fullTextSearch ::
  "host \<Rightarrow> ('r \<Rightarrow> jsstring \<Rightarrow> jsstring option) \<Rightarrow> bool \<Rightarrow> 'r list \<Rightarrow> jsstring \<Rightarrow> jsstring list
     \<Rightarrow> options \<Rightarrow> 'k error + 'r scored list" where
  "fullTextSearch h fieldValue available s query fieldNames opts =
     (case getAll available s of
        Inl e \<Rightarrow> Inl e
      | Inr items \<Rightarrow>
          if query = [] \<or> trim query = [] then
            Inr (map (\<lambda>itm. \<lparr>item = itm, score = 0\<rparr>) items)
          else
            (let processedQuery = (if caseSensitive opts then query else toLowerCase h query);
                 queryTerms = filter (\<lambda>term. 0 < length term) (splitWs processedQuery)
             in case those (map (scoreItem h opts fieldValue queryTerms fieldNames) items) of
                  None \<Rightarrow> Inl RegExpSyntaxError
                | Some results \<Rightarrow>
                    (let sortedResults =
                       sort_key (\<lambda>r. - score r) (filter (\<lambda>r. 0 < score r) results)
                     in case limit opts of
                          None \<Rightarrow> Inr sortedResults
                        | Some l \<Rightarrow>
                            if 0 < l then Inr (take (nat l) sortedResults)
                            else Inr sortedResults)))"

section \<open>The report repository: report-db.ts\<close>

text \<open>
  The types of the reports. Field names that two types share, or that Isabelle reserves,
  carry a prefix. The counts (\<open>value\<close>, \<open>count\<close>) are integers; \<open>percent\<close> is a quotient,
  not a number when the grand total is 0.
\<close>

datatype jsnumber = Finite rat | NaN | PosInfinity | NegInfinity

record PieChartData =
  name :: jsstring
  slice_value :: int

record QuickReportData =
  quick_category :: jsstring
  percent :: jsnumber

record Activity =
  activity :: jsstring
  count :: int

record DetailedReportData =
  category :: jsstring
  activities :: "Activity list"

record ReportData =
  pieChart :: "PieChartData list"
  quickReport :: "QuickReportData list"
  detailedReport :: "DetailedReportData list"

record DailyReport =
  daily_id :: jsstring
  date :: jsstring
  daily_title :: jsstring
  daily_data :: ReportData

record YearlyReport =
  yearly_id :: jsstring
  year :: jsstring
  yearly_title :: jsstring
  yearly_data :: ReportData

text \<open>
  The state of the repository: whether the connection can be had, and the records of its
  two stores, both with key path \<open>id\<close>. A method takes the state and returns its result
  with the state after it.
\<close>

record ReportDatabase =
  available :: bool
  dailyReports :: "DailyReport list"
  yearlyReports :: "YearlyReport list"

definition addDailyReport ::
  "ReportDatabase \<Rightarrow> DailyReport \<Rightarrow> (jsstring error + jsstring) \<times> ReportDatabase" where
  "addDailyReport db report =
     (case add (available db) daily_id (dailyReports db) report of
        (res, s') \<Rightarrow> (res, db\<lparr>dailyReports := s'\<rparr>))"

definition updateDailyReport ::
  "ReportDatabase \<Rightarrow> DailyReport \<Rightarrow> (jsstring error + jsstring) \<times> ReportDatabase" where
  "updateDailyReport db report =
     (case put (available db) daily_id (dailyReports db) report of
        (res, s') \<Rightarrow> (res, db\<lparr>dailyReports := s'\<rparr>))"

definition getDailyReport ::
  "ReportDatabase \<Rightarrow> jsstring \<Rightarrow> (jsstring error + DailyReport option) \<times> ReportDatabase" where
  "getDailyReport db ident = (get (available db) daily_id (dailyReports db) ident, db)"

definition deleteDailyReport ::
  "ReportDatabase \<Rightarrow> jsstring \<Rightarrow> (jsstring error + unit) \<times> ReportDatabase" where
  "deleteDailyReport db ident =
     (case delete (available db) daily_id (dailyReports db) ident of
        (res, s') \<Rightarrow> (res, db\<lparr>dailyReports := s'\<rparr>))"

definition getAllDailyReports ::
  "ReportDatabase \<Rightarrow> (jsstring error + DailyReport list) \<times> ReportDatabase" where
  "getAllDailyReports db = (getAll (available db) (dailyReports db), db)"

definition getDailyReportsByMonth ::
  "ReportDatabase \<Rightarrow> jsstring \<Rightarrow> (jsstring error + DailyReport list) \<times> ReportDatabase" where
  "getDailyReportsByMonth db yearMonth =
     (let pfx = yearMonth @ str ''-'';
          rg = createRange_prefix pfx
      in (search (available db) daily_id (dailyReports db)
            \<lparr>keyRange = Some rg, searchLimit = None, direction = None, filter_fn = None\<rparr>,
          db))"

definition addYearlyReport ::
  "ReportDatabase \<Rightarrow> YearlyReport \<Rightarrow> (jsstring error + jsstring) \<times> ReportDatabase" where
  "addYearlyReport db report =
     (case add (available db) yearly_id (yearlyReports db) report of
        (res, s') \<Rightarrow> (res, db\<lparr>yearlyReports := s'\<rparr>))"

definition updateYearlyReport ::
  "ReportDatabase \<Rightarrow> YearlyReport \<Rightarrow> (jsstring error + jsstring) \<times> ReportDatabase" where
  "updateYearlyReport db report =
     (case put (available db) yearly_id (yearlyReports db) report of
        (res, s') \<Rightarrow> (res, db\<lparr>yearlyReports := s'\<rparr>))"

definition getYearlyReport ::
  "ReportDatabase \<Rightarrow> jsstring \<Rightarrow> (jsstring error + YearlyReport option) \<times> ReportDatabase" where
  "getYearlyReport db ident = (get (available db) yearly_id (yearlyReports db) ident, db)"

subsection \<open>cleanupOldReports\<close>

text \<open>
  A \<open>Date\<close> is represented by the string its \<open>toISOString()\<close> returns; on an invalid date
  that method throws a RangeError.
\<close>

datatype Date = Date jsstring | InvalidDate

definition toISOString :: "Date \<Rightarrow> jsstring error + jsstring" where
  "toISOString d = (case d of Date isoString \<Rightarrow> Inr isoString | InvalidDate \<Rightarrow> Inl InvalidTimeValue)"

text \<open>
  One \<open>delete\<close> per old report, each in a transaction of its own; \<open>Promise.all\<close> rejects
  with the first rejection, and the other deletes still run.
\<close>

fun deleteEach ::
  "bool \<Rightarrow> DailyReport list \<Rightarrow> DailyReport list \<Rightarrow> (jsstring error + unit) \<times> DailyReport list" where
  "deleteEach av s [] = (Inr (), s)"
| "deleteEach av s (report # reports) =
     (case delete av daily_id s (daily_id report) of
        (res, s') \<Rightarrow>
          (case deleteEach av s' reports of
             (res', s'') \<Rightarrow> ((case res of Inl e \<Rightarrow> Inl e | Inr _ \<Rightarrow> res'), s'')))"

definition cleanupOldReports ::
  "ReportDatabase \<Rightarrow> Date \<Rightarrow> (jsstring error + unit) \<times> ReportDatabase" where
  "cleanupOldReports db olderThan =
     (case toISOString olderThan of
        Inl e \<Rightarrow> (Inl e, db)
      | Inr isoString \<Rightarrow>
          (let olderThanStr = beforeT isoString;
               rg = createRange_lessThan olderThanStr
           in case search (available db) daily_id (dailyReports db)
                     \<lparr>keyRange = Some rg, searchLimit = None, direction = None,
                      filter_fn = None\<rparr> of
                Inl e \<Rightarrow> (Inl e, db)
              | Inr oldReports \<Rightarrow>
                  (case deleteEach (available db) (dailyReports db) oldReports of
                     (res, s') \<Rightarrow> (res, db\<lparr>dailyReports := s'\<rparr>))))"

subsection \<open>generateYearlyReport\<close>

definition getDailyReportsByYear ::
  "ReportDatabase \<Rightarrow> jsstring \<Rightarrow> (jsstring error + DailyReport list) \<times> ReportDatabase" where
  "getDailyReportsByYear db yr =
     (let pfx = yr @ str ''-'';
          rg = createRange_prefix pfx
      in (search (available db) daily_id (dailyReports db)
            \<lparr>keyRange = Some rg, searchLimit = None, direction = None, filter_fn = None\<rparr>,
          db))"

text \<open>
  A JavaScript \<open>Map\<close> keeps its keys in insertion order, and \<open>set\<close> on a present key
  replaces the value in place: an association list with \<open>map_of\<close> for \<open>get\<close> and
  \<open>AList.update\<close> for \<open>set\<close>. \<open>orZero\<close> is \<open>m.get(k) || 0\<close>.
\<close>

definition orZero :: "int option \<Rightarrow> int" where
  "orZero v = (case v of None \<Rightarrow> 0 | Some n \<Rightarrow> if n = 0 then 0 else n)"

text \<open>\<open>(value / grandTotal) * 100\<close>\<close>

definition percentOf :: "int \<Rightarrow> int \<Rightarrow> jsnumber" where
  "percentOf v grandTotal =
     (if grandTotal \<noteq> 0 then Finite (of_int v / of_int grandTotal * 100)
      else if v = 0 then NaN
      else if 0 < v then PosInfinity
      else NegInfinity)"

text \<open>The body of the loop over \<open>reportData.pieChart\<close>.\<close>

definition addSlice ::
  "PieChartData \<Rightarrow> (jsstring \<times> int) list \<times> int \<Rightarrow> (jsstring \<times> int) list \<times> int" where
  "addSlice itm acc =
     (case acc of
        (categoryTotals, grandTotal) \<Rightarrow>
          (let current = orZero (map_of categoryTotals (name itm))
           in (AList.update (name itm) (current + slice_value itm) categoryTotals,
               grandTotal + slice_value itm)))"

text \<open>The body of the loop over \<open>detail.activities\<close>.\<close>

definition addActivity :: "Activity \<Rightarrow> (jsstring \<times> int) list \<Rightarrow> (jsstring \<times> int) list" where
  "addActivity a activityMap =
     (let current = orZero (map_of activityMap (activity a))
      in AList.update (activity a) (current + count a) activityMap)"

text \<open>
  The body of the loop over \<open>reportData.detailedReport\<close>. The inner map is shared by
  reference in the source; here the entry of the category is replaced in place.
\<close>

definition addDetail ::
  "DetailedReportData \<Rightarrow> (jsstring \<times> (jsstring \<times> int) list) list
     \<Rightarrow> (jsstring \<times> (jsstring \<times> int) list) list" where
  "addDetail detail categoryActivities =
     (let withCategory =
        (if map_of categoryActivities (category detail) = None
         then AList.update (category detail) [] categoryActivities
         else categoryActivities);
          activityMap =
        (case map_of withCategory (category detail) of None \<Rightarrow> [] | Some m \<Rightarrow> m)
      in AList.update (category detail) (fold addActivity (activities detail) activityMap)
           withCategory)"

definition processReport ::
  "ReportData \<Rightarrow> (jsstring \<times> int) list \<times> (jsstring \<times> (jsstring \<times> int) list) list \<times> int
     \<Rightarrow> (jsstring \<times> int) list \<times> (jsstring \<times> (jsstring \<times> int) list) list \<times> int" where
  "processReport reportData acc =
     (case acc of
        (categoryTotals, categoryActivities, grandTotal) \<Rightarrow>
          (case fold addSlice (pieChart reportData) (categoryTotals, grandTotal) of
             (categoryTotals', grandTotal') \<Rightarrow>
               (categoryTotals',
                fold addDetail (detailedReport reportData) categoryActivities,
                grandTotal')))"

text \<open>
  \<open>activities.sort((a, b) => b.count - a.count)\<close>: a stable sort by descending count.
\<close>

definition mergeReportData :: "ReportData list \<Rightarrow> ReportData" where
  "mergeReportData reportDataArray =
     (case fold processReport reportDataArray ([], [], 0) of
        (categoryTotals, categoryActivities, grandTotal) \<Rightarrow>
          \<lparr>pieChart = map (\<lambda>(n, v). \<lparr>name = n, slice_value = v\<rparr>) categoryTotals,
           quickReport =
             map (\<lambda>(c, v). \<lparr>quick_category = c, percent = percentOf v grandTotal\<rparr>)
               categoryTotals,
           detailedReport =
             map (\<lambda>(c, activityMap).
                    \<lparr>category = c,
                     activities =
                       sort_key (\<lambda>a. - count a)
                         (map (\<lambda>(a, n). \<lparr>activity = a, count = n\<rparr>) activityMap)\<rparr>)
               categoryActivities\<rparr>)"

definition generateYearlyReport ::
  "ReportDatabase \<Rightarrow> jsstring \<Rightarrow> (jsstring error + YearlyReport) \<times> ReportDatabase" where
  "generateYearlyReport db yr =
     (case getDailyReportsByYear db yr of
        (Inl e, db') \<Rightarrow> (Inl e, db')
      | (Inr reports, db') \<Rightarrow>
          if length reports = 0 then (Inl (NoDailyReportsFound yr), db')
          else
            (let mergedData = mergeReportData (map daily_data reports)
             in (Inr \<lparr>yearly_id = yr, year = yr,
                      yearly_title = str ''Annual Report '' @ yr,
                      yearly_data = mergedData\<rparr>,
                 db')))"

subsection \<open>importReports\<close>

text \<open>The argument of \<open>importReports\<close>; \<open>None\<close> is an array that is not given.\<close>

record importData =
  import_dailyReports :: "DailyReport list option"
  import_yearlyReports :: "YearlyReport list option"

text \<open>\<open>await this.db.clear(store); await this.db.addMultiple(store, items)\<close>\<close>

definition clearThenAdd ::
  "bool \<Rightarrow> ('r \<Rightarrow> 'k::linorder) \<Rightarrow> 'r list \<Rightarrow> 'r list \<Rightarrow> ('k error + unit) \<times> 'r list" where
  "clearThenAdd av keyOf s items =
     (case clear av s of
        (Inl e, s') \<Rightarrow> (Inl e, s')
      | (Inr _, s') \<Rightarrow> addMultiple av keyOf s' items)"

text \<open>
  One of the two blocks of \<open>importReports\<close>:
  \<open>if (array && array.length > 0) { clear; addMultiple }\<close>.
\<close>

definition replaceStore ::
  "bool \<Rightarrow> ('r \<Rightarrow> 'k::linorder) \<Rightarrow> 'r list \<Rightarrow> 'r list option \<Rightarrow> ('k error + unit) \<times> 'r list" where
  "replaceStore av keyOf s array =
     (case array of
        None \<Rightarrow> (Inr (), s)
      | Some items \<Rightarrow>
          if 0 < length items then clearThenAdd av keyOf s items else (Inr (), s))"

definition importReports ::
  "ReportDatabase \<Rightarrow> importData \<Rightarrow> (jsstring error + unit) \<times> ReportDatabase" where
  "importReports db d =
     (case replaceStore (available db) daily_id (dailyReports db) (import_dailyReports d) of
        (Inl e, s') \<Rightarrow> (Inl e, db\<lparr>dailyReports := s'\<rparr>)
      | (Inr _, s') \<Rightarrow>
          (case replaceStore (available db) yearly_id (yearlyReports db)
                  (import_yearlyReports d) of
             (res, y') \<Rightarrow> (res, db\<lparr>dailyReports := s', yearlyReports := y'\<rparr>)))"

section \<open>Notions of the specification\<close>

text \<open>
  The format of the id of a daily report, \<open>YYYY-MM-DD\<close>: ten code units, a hyphen at
  positions 4 and 7 and a decimal digit everywhere else.
\<close>

definition isDigit :: "16 word \<Rightarrow> bool" where
  "isDigit c \<longleftrightarrow> 0x30 \<le> c \<and> c \<le> 0x39"

definition idPattern :: "bool list" where
  "idPattern = [False, False, False, False, True, False, False, True, False, False]"

definition wellFormedId :: "jsstring \<Rightarrow> bool" where
  "wellFormedId s \<longleftrightarrow>
     list_all2 (\<lambda>hyphen c. if hyphen then c = 0x2D else isDigit c) idPattern s"






text \<open>
  The edit distance of two strings, by the recurrence on their last characters: deleting,
  inserting or substituting one character costs 1.
\<close>

function editDistance :: "'a list \<Rightarrow> 'a list \<Rightarrow> nat" where
  "editDistance a b =
     (if a = [] then length b
      else if b = [] then length a
      else min (min (editDistance (butlast a) b + 1) (editDistance a (butlast b) + 1))
               (editDistance (butlast a) (butlast b) + (if last a = last b then 0 else 1)))"
  by pat_completeness auto
termination
  by (relation "measure (\<lambda>(a, b). length a + length b)") (auto simp: neq_Nil_conv)

declare editDistance.simps [simp del]





section \<open>Data for the examples\<close>

text \<open>
  A host for the examples. It lowers the ASCII letters. Its whole-word test knows the
  terms made of letters, digits and underscores, for which the pattern is the term itself
  between two word boundaries; on any other term it answers as for a pattern that does
  not compile.
\<close>

definition asciiLower :: "jsstring \<Rightarrow> jsstring" where
  "asciiLower s = map (\<lambda>c. if 0x41 \<le> c \<and> c \<le> 0x5A then c + 0x20 else c) s"

definition isWordChar :: "16 word \<Rightarrow> bool" where
  "isWordChar c \<longleftrightarrow>
     (0x30 \<le> c \<and> c \<le> 0x39) \<or> (0x41 \<le> c \<and> c \<le> 0x5A) \<or> c = 0x5F \<or> (0x61 \<le> c \<and> c \<le> 0x7A)"

fun occursAsWord :: "bool \<Rightarrow> jsstring \<Rightarrow> jsstring \<Rightarrow> bool" where
  "occursAsWord afterWordChar term [] = False"
| "occursAsWord afterWordChar term (c # cs) =
     ((\<not> afterWordChar \<and> prefix term (c # cs) \<and>
        (case drop (length term) (c # cs) of [] \<Rightarrow> True | d # ds \<Rightarrow> \<not> isWordChar d))
      \<or> occursAsWord (isWordChar c) term cs)"

definition exampleHost :: host where
  "exampleHost =
     \<lparr>toLowerCase = asciiLower,
      wordRegExpTest = (\<lambda>ignoreCase term text.
        if term \<noteq> [] \<and> list_all isWordChar term then Some (occursAsWord False term text)
        else None)\<rparr>"


definition noData :: ReportData where
  "noData = \<lparr>pieChart = [], quickReport = [], detailedReport = []\<rparr>"

definition dailyOn :: "string \<Rightarrow> string \<Rightarrow> DailyReport" where
  "dailyOn day title =
     \<lparr>daily_id = str day, date = str day, daily_title = str title, daily_data = noData\<rparr>"

definition yearlyOf :: "string \<Rightarrow> YearlyReport" where
  "yearlyOf y =
     \<lparr>yearly_id = str y, year = str y, yearly_title = str ''Annual Report '' @ str y,
      yearly_data = noData\<rparr>"

definition workDay :: "int \<Rightarrow> ReportData" where
  "workDay n =
     \<lparr>pieChart = [\<lparr>name = str ''Work'', slice_value = n\<rparr>],
      quickReport = [\<lparr>quick_category = str ''Work'', percent = Finite 100\<rparr>],
      detailedReport =
        [\<lparr>category = str ''Work'', activities = [\<lparr>activity = str ''coding'', count = n\<rparr>]\<rparr>]\<rparr>"

definition threeDays :: ReportDatabase where
  "threeDays =
     \<lparr>available = True,
      dailyReports = [dailyOn ''2024-01-01'' ''New year'', dailyOn ''2024-01-15'' ''Mid month'',
                      dailyOn ''2024-02-01'' ''February''],
      yearlyReports = [yearlyOf ''2023'']\<rparr>"

definition februaryEdge :: ReportDatabase where
  "februaryEdge =
     \<lparr>available = True,
      dailyReports = [dailyOn ''2024-01-31'' ''Last of January'',
                      dailyOn ''2024-02-01'' ''First of February''],
      yearlyReports = [yearlyOf ''2023'']\<rparr>"



definition halfOptions :: options where
  "halfOptions = \<lparr>limit = None, caseSensitive = True, matchWholeWord = False,
      fuzzyMatch = True, fuzzyMatchThreshold = Some (1 / 2)\<rparr>"

section \<open>Properties of the object store\<close>

lemma find_insort_key_new:
  "P r \<Longrightarrow> \<forall>x\<in>set s. \<not> P x \<Longrightarrow> find P (insort_key f r s) = Some r"
  by (induction s) auto

lemma store_get_None_iff: "store_get keyOf s k = None \<longleftrightarrow> k \<notin> keyOf ` set s"
  by (auto simp: store_get_def find_None_iff)

lemma store_get_Some_key: "store_get keyOf s k = Some r \<Longrightarrow> keyOf r = k \<and> r \<in> set s"
  by (auto simp: store_get_def find_Some_iff)

lemma map_insort_key: "map f (insort_key f x xs) = insort (f x) (map f xs)"
  by (induction xs) auto

text \<open>The writes of the host keep a store in strictly ascending key order.\<close>

lemma store_inv_insort:
  assumes "store_inv keyOf s" and "keyOf r \<notin> keyOf ` set s"
  shows "store_inv keyOf (insort_key keyOf r s)"
proof -
  have "sorted (map keyOf s)" and "distinct (map keyOf s)"
    using assms(1) by (simp_all add: store_inv_def strict_sorted_iff)
  then have "sorted (insort (keyOf r) (map keyOf s))"
    and "distinct (insort (keyOf r) (map keyOf s))"
    using assms(2) by (simp_all add: sorted_insort distinct_insort)
  then show ?thesis
    by (simp add: store_inv_def strict_sorted_iff map_insort_key)
qed

lemma store_inv_delete: "store_inv keyOf s \<Longrightarrow> store_inv keyOf (store_delete keyOf s k)"
  by (simp add: store_inv_def store_delete_def sorted_wrt_filter sorted_wrt_map)

lemma store_inv_put: "store_inv keyOf s \<Longrightarrow> store_inv keyOf (store_put keyOf s r)"
  unfolding store_put_def
proof (rule store_inv_insort)
  show "store_inv keyOf s \<Longrightarrow> store_inv keyOf (store_delete keyOf s (keyOf r))"
    by (rule store_inv_delete)
  show "keyOf r \<notin> keyOf ` set (store_delete keyOf s (keyOf r))"
    by (auto simp: store_delete_def)
qed

lemma store_inv_add:
  "store_inv keyOf s \<Longrightarrow> store_add keyOf s r = Some s' \<Longrightarrow> store_inv keyOf s'"
  by (auto simp: store_add_def store_get_None_iff store_inv_insort split: if_splits)

lemma set_store_add: "store_add keyOf s r = Some s' \<Longrightarrow> set s' = insert r (set s)"
  by (auto simp: store_add_def set_insort_key split: if_splits)

section \<open>add, get and update\<close>

text \<open>
  C9. A record whose key is not in the store is added, and reading its key from the store
  after the add gives the record back. (The connection is available.)
\<close>

theorem add_then_get:
  assumes "av" and "keyOf r \<notin> keyOf ` set s"
  shows "fst (add av keyOf s r) = Inr (keyOf r) \<and>
         get av keyOf (snd (add av keyOf s r)) (keyOf r) = Inr (Some r)"
proof -
  have none: "store_get keyOf s (keyOf r) = None"
    using assms(2) by (simp add: store_get_None_iff)
  have "find (\<lambda>x. keyOf x = keyOf r) (insort_key keyOf r s) = Some r"
    using assms(2) by (intro find_insort_key_new) (auto simp: image_iff)
  then show ?thesis
    using assms(1) none by (simp add: add_def get_def connect_def store_add_def store_get_def)
qed

theorem add_then_get_witness:
  "str ''2024-01-15'' \<notin> daily_id ` set [dailyOn ''2024-01-01'' ''Monday''] \<and>
   fst (add True daily_id [dailyOn ''2024-01-01'' ''Monday''] (dailyOn ''2024-01-15'' ''Later''))
     = Inr (str ''2024-01-15'') \<and>
   get True daily_id
     (snd (add True daily_id [dailyOn ''2024-01-01'' ''Monday''] (dailyOn ''2024-01-15'' ''Later'')))
     (str ''2024-01-15'') = Inr (Some (dailyOn ''2024-01-15'' ''Later''))"
proof -
  have absent: "daily_id (dailyOn ''2024-01-15'' ''Later'')
                  \<notin> daily_id ` set [dailyOn ''2024-01-01'' ''Monday'']"
    by (simp add: dailyOn_def str_def)
  have key: "daily_id (dailyOn ''2024-01-15'' ''Later'') = str ''2024-01-15''"
    by (simp add: dailyOn_def)
  show ?thesis
    using add_then_get [OF TrueI absent] absent unfolding key by simp
qed

lemma add_unavailable: "add False keyOf s r = (Inl ErrorOpeningDatabase, s)"
  by (simp add: add_def connect_def)

lemma add_present:
  "k \<in> keyOf ` set s \<Longrightarrow> keyOf r = k \<Longrightarrow> add True keyOf s r = (Inl ErrorAddingItem, s)"
  by (auto simp: add_def connect_def store_add_def store_get_None_iff)

text \<open>
  C7. With the connection available, \<open>update\<close> rejects exactly when no record has the key,
  then with the not-found message and the store as it was; when \<open>get\<close> finds a record,
  \<open>update\<close> applies \<open>updateFn\<close> to it, stores the outcome with \<open>put\<close> and resolves with it.
\<close>

theorem update_rejects_iff_absent:
  assumes "av"
  shows "(isl (fst (update av keyOf s key updateFn)) \<longleftrightarrow> key \<notin> keyOf ` set s) \<and>
         (key \<notin> keyOf ` set s \<longrightarrow>
            update av keyOf s key updateFn = (Inl (ItemNotFoundForUpdate key), s)) \<and>
         (\<forall>currentValue. get av keyOf s key = Inr (Some currentValue) \<longrightarrow>
            update av keyOf s key updateFn =
              (Inr (updateFn currentValue), snd (put av keyOf s (updateFn currentValue))) \<and>
            put av keyOf s (updateFn currentValue) =
              (Inr (keyOf (updateFn currentValue)), store_put keyOf s (updateFn currentValue)))"
  using assms
  by (auto simp: update_def get_def put_def connect_def Let_def store_get_None_iff[symmetric]
           split: option.splits)

theorem update_rejects_iff_absent_witness:
  "update True daily_id [dailyOn ''2024-01-01'' ''Monday''] (str ''2024-01-02'')
     (\<lambda>r. r\<lparr>daily_title := str ''Edited''\<rparr>)
     = (Inl (ItemNotFoundForUpdate (str ''2024-01-02'')), [dailyOn ''2024-01-01'' ''Monday'']) \<and>
   update True daily_id [dailyOn ''2024-01-01'' ''Monday''] (str ''2024-01-01'')
     (\<lambda>r. r\<lparr>daily_title := str ''Edited''\<rparr>)
     = (Inr (dailyOn ''2024-01-01'' ''Edited''), [dailyOn ''2024-01-01'' ''Edited''])"
proof -
  let ?s = "[dailyOn ''2024-01-01'' ''Monday'']"
  let ?f = "\<lambda>r. r\<lparr>daily_title := str ''Edited''\<rparr>"
  have absent: "str ''2024-01-02'' \<notin> daily_id ` set ?s"
    by (simp add: dailyOn_def str_def)
  have found: "get True daily_id ?s (str ''2024-01-01'') = Inr (Some (dailyOn ''2024-01-01'' ''Monday''))"
    by (simp add: get_def connect_def store_get_def dailyOn_def)
  have edited: "?f (dailyOn ''2024-01-01'' ''Monday'') = dailyOn ''2024-01-01'' ''Edited''"
    by (simp add: dailyOn_def)
  have stored: "store_put daily_id ?s (dailyOn ''2024-01-01'' ''Edited'')
                  = [dailyOn ''2024-01-01'' ''Edited'']"
    by (simp add: store_put_def store_delete_def dailyOn_def)
  from update_rejects_iff_absent [OF TrueI, of daily_id ?s "str ''2024-01-02''" ?f] absent
  have one: "update True daily_id ?s (str ''2024-01-02'') ?f
               = (Inl (ItemNotFoundForUpdate (str ''2024-01-02'')), ?s)"
    by blast
  from update_rejects_iff_absent [OF TrueI, of daily_id ?s "str ''2024-01-01''" ?f] found
  have two: "update True daily_id ?s (str ''2024-01-01'') ?f
               = (Inr (?f (dailyOn ''2024-01-01'' ''Monday'')),
                  store_put daily_id ?s (?f (dailyOn ''2024-01-01'' ''Monday'')))"
    by (metis snd_conv)
  show ?thesis
    using one two unfolding edited stored by simp
qed

lemma update_unavailable: "update False keyOf s key updateFn = (Inl ErrorOpeningDatabase, s)"
  by (simp add: update_def connect_def)

section \<open>Range scans over the primary key\<close>

lemma le_MAX_CHAR: "c \<le> MAX_CHAR"
proof -
  have "unat c < 2 ^ 16" using unsigned_less[of c] by simp
  then show ?thesis by (simp add: MAX_CHAR_def word_le_nat_alt)
qed

lemma less_MAX_CHAR_iff: "c < MAX_CHAR \<longleftrightarrow> c \<noteq> MAX_CHAR"
  using le_MAX_CHAR[of c] by auto

text \<open>
  The keys between a prefix (inclusive) and the prefix followed by the sentinel
  (exclusive) are the keys that start with the prefix and do not go on with the sentinel.
\<close>

lemma prefix_bounds:
  "pfx \<le> k \<and> k < pfx @ [MAX_CHAR] \<longleftrightarrow> prefix pfx k \<and> \<not> prefix (pfx @ [MAX_CHAR]) k"
proof (induction pfx arbitrary: k)
  case Nil
  show ?case by (cases k) (auto simp: less_MAX_CHAR_iff)
next
  case (Cons a pfx)
  show ?case
  proof (cases k)
    case Nil
    then show ?thesis by simp
  next
    case (Cons c cs)
    then show ?thesis using Cons.IH[of cs] by auto
  qed
qed

lemma inRange_prefix:
  "inRange (createRange_prefix pfx) k \<longleftrightarrow> prefix pfx k \<and> \<not> prefix (pfx @ [MAX_CHAR]) k"
  using prefix_bounds[of pfx k] by (simp add: inRange_def createRange_prefix_def)

lemma inRange_lessThan: "inRange (createRange_lessThan u) k \<longleftrightarrow> k < u"
  by (simp add: inRange_def createRange_lessThan_def)

lemma sentinel_free_prefix:
  "MAX_CHAR \<notin> set k \<Longrightarrow> \<not> prefix (pfx @ [MAX_CHAR]) k"
  by (auto simp: prefix_def)

lemma wellFormedId_sentinel_free: "wellFormedId k \<Longrightarrow> MAX_CHAR \<notin> set k"
proof
  assume wf: "wellFormedId k" and "MAX_CHAR \<in> set k"
  then obtain i where i: "i < length k" "k ! i = MAX_CHAR"
    by (auto simp: in_set_conv_nth)
  from wf have "if idPattern ! i then k ! i = 0x2D else isDigit (k ! i)"
    using i(1) by (auto simp: wellFormedId_def list_all2_conv_all_nth)
  then show False
    using i(2) by (auto simp: MAX_CHAR_def isDigit_def split: if_splits)
qed

lemma cursorLoop_plain:
  "filter_fn ps = None \<Longrightarrow> searchLimit ps = None \<Longrightarrow> cursorLoop ps items results = results @ items"
  by (induction items arbitrary: results) auto

lemma search_range:
  "search True keyOf s \<lparr>keyRange = Some rg, searchLimit = None, direction = None, filter_fn = None\<rparr>
     = Inr (filter (\<lambda>r. inRange rg (keyOf r)) s)"
  by (simp add: search_def connect_def openCursor_def cursorLoop_plain)

lemma search_unavailable: "search False keyOf s ps = Inl ErrorOpeningDatabase"
  by (simp add: search_def connect_def)

lemma prefix_scan:
  assumes "\<forall>r\<in>set s. MAX_CHAR \<notin> set (daily_id r)"
  shows "filter (\<lambda>r. inRange (createRange_prefix pfx) (daily_id r)) s
           = filter (\<lambda>r. prefix pfx (daily_id r)) s"
proof (intro filter_cong refl)
  fix r assume "r \<in> set s"
  then have "MAX_CHAR \<notin> set (daily_id r)"
    using assms by simp
  then have "\<not> prefix (pfx @ [MAX_CHAR]) (daily_id r)"
    by (rule sentinel_free_prefix)
  then show "inRange (createRange_prefix pfx) (daily_id r) = prefix pfx (daily_id r)"
    unfolding inRange_prefix by blast
qed

lemma threeDays_ok:
  "available threeDays \<and> (\<forall>r\<in>set (dailyReports threeDays). wellFormedId (daily_id r)) \<and>
   store_inv daily_id (dailyReports threeDays)"
  by (simp add: threeDays_def dailyOn_def str_def wellFormedId_def idPattern_def isDigit_def
        store_inv_def)

text \<open>
  C5. With well-formed ids in the daily store, \<open>getDailyReportsByMonth\<close> returns the daily
  reports whose id starts with \<open>yearMonth\<close> followed by a hyphen, in ascending order of
  their ids; it is the scan of the primary key from that prefix (inclusive) to the prefix
  followed by the sentinel (exclusive). (The connection is available.)
\<close>

theorem getDailyReportsByMonth_prefix:
  assumes "available db"
    and "\<forall>r\<in>set (dailyReports db). wellFormedId (daily_id r)"
    and "store_inv daily_id (dailyReports db)"
  shows "getDailyReportsByMonth db yearMonth =
           (Inr (filter (\<lambda>r. prefix (yearMonth @ str ''-'') (daily_id r)) (dailyReports db)), db) \<and>
         sorted_wrt (<) (map daily_id
           (filter (\<lambda>r. prefix (yearMonth @ str ''-'') (daily_id r)) (dailyReports db))) \<and>
         fst (getDailyReportsByMonth db yearMonth) =
           search (available db) daily_id (dailyReports db)
             \<lparr>keyRange = Some \<lparr>lower = Some (yearMonth @ str ''-''),
                                upper = Some (yearMonth @ str ''-'' @ [MAX_CHAR]),
                                lowerOpen = False, upperOpen = True\<rparr>,
              searchLimit = None, direction = None, filter_fn = None\<rparr>"
proof -
  have "\<forall>r\<in>set (dailyReports db). MAX_CHAR \<notin> set (daily_id r)"
    using assms(2) by (simp add: wellFormedId_sentinel_free)
  then have same:
    "filter (\<lambda>r. inRange (createRange_prefix (yearMonth @ str ''-'')) (daily_id r))
       (dailyReports db)
     = filter (\<lambda>r. prefix (yearMonth @ str ''-'') (daily_id r)) (dailyReports db)"
    by (rule prefix_scan)
  have "sorted_wrt (<) (map daily_id (dailyReports db))"
    using assms(3) by (simp add: store_inv_def)
  then have sorted: "sorted_wrt (<) (map daily_id
           (filter (\<lambda>r. prefix (yearMonth @ str ''-'') (daily_id r)) (dailyReports db)))"
    by (simp add: sorted_wrt_map sorted_wrt_filter)
  show ?thesis
    using assms(1) same sorted
    by (simp add: getDailyReportsByMonth_def search_range Let_def createRange_prefix_def)
qed

theorem getDailyReportsByMonth_prefix_witness:
  "available threeDays \<and> list_all (\<lambda>r. wellFormedId (daily_id r)) (dailyReports threeDays) \<and>
   store_inv daily_id (dailyReports threeDays) \<and>
   getDailyReportsByMonth threeDays (str ''2024-01'') =
     (Inr [dailyOn ''2024-01-01'' ''New year'', dailyOn ''2024-01-15'' ''Mid month''], threeDays)"
proof -
  have ok: "available threeDays" "\<forall>r\<in>set (dailyReports threeDays). wellFormedId (daily_id r)"
    "store_inv daily_id (dailyReports threeDays)"
    using threeDays_ok by blast+
  have sel: "filter (\<lambda>r. prefix (str ''2024-01'' @ str ''-'') (daily_id r)) (dailyReports threeDays)
    = [dailyOn ''2024-01-01'' ''New year'', dailyOn ''2024-01-15'' ''Mid month'']"
    by (simp add: threeDays_def dailyOn_def str_def)
  show ?thesis
    using getDailyReportsByMonth_prefix [OF ok, of "str ''2024-01''"] ok unfolding sel
    by (simp add: list_all_iff)
qed

section \<open>cleanupOldReports\<close>

lemma deleteEach_available:
  "deleteEach True s olds = (Inr (), filter (\<lambda>r. daily_id r \<notin> daily_id ` set olds) s)"
proof (induction olds arbitrary: s)
  case Nil
  show ?case by simp
next
  case (Cons r olds)
  have "filter (\<lambda>x. daily_id x \<notin> daily_id ` set olds) (filter (\<lambda>x. daily_id x \<noteq> daily_id r) s)
        = filter (\<lambda>x. daily_id x \<notin> daily_id ` set (r # olds)) s"
    by (auto intro: filter_cong)
  then show ?case
    by (simp add: Cons.IH delete_def connect_def store_delete_def)
qed

lemma delete_selected:
  "filter (\<lambda>r. daily_id r \<notin> daily_id ` {x \<in> set s. Q (daily_id x)}) s
     = filter (\<lambda>r. \<not> Q (daily_id r)) s"
  by (rule filter_cong) auto

text \<open>
  C6. \<open>cleanupOldReports\<close> removes from the daily store the reports whose id is below the
  part of the ISO rendering of the date before its \<open>T\<close>, keeps the reports whose id is
  that bound or above it, and leaves the yearly store as it is. (The connection is
  available.) The example of the claim, ids 2024-01-31 and 2024-02-01 against the date
  2024-02-01, is the instance that follows the theorem.
\<close>

theorem cleanupOldReports_boundary:
  assumes "available db"
  shows "cleanupOldReports db (Date isoString) =
           (Inr (), db\<lparr>dailyReports :=
              filter (\<lambda>r. \<not> daily_id r < beforeT isoString) (dailyReports db)\<rparr>) \<and>
         (\<forall>r\<in>set (dailyReports db).
            r \<in> set (dailyReports (snd (cleanupOldReports db (Date isoString)))) \<longleftrightarrow>
            beforeT isoString \<le> daily_id r) \<and>
         yearlyReports (snd (cleanupOldReports db (Date isoString))) = yearlyReports db"
proof -
  have "cleanupOldReports db (Date isoString) =
           (Inr (), db\<lparr>dailyReports :=
              filter (\<lambda>r. \<not> daily_id r < beforeT isoString) (dailyReports db)\<rparr>)"
    using assms
    by (simp add: cleanupOldReports_def toISOString_def Let_def search_range inRange_lessThan
          deleteEach_available delete_selected)
  then show ?thesis by (auto simp: not_less)
qed

theorem cleanupOldReports_boundary_witness:
  "available februaryEdge \<and>
   cleanupOldReports februaryEdge (Date (str ''2024-02-01T00:00:00.000Z'')) =
     (Inr (), \<lparr>available = True,
               dailyReports = [dailyOn ''2024-02-01'' ''First of February''],
               yearlyReports = [yearlyOf ''2023'']\<rparr>)"
proof -
  have av: "available februaryEdge" by (simp add: februaryEdge_def)
  have bound: "beforeT (str ''2024-02-01T00:00:00.000Z'') = str ''2024-02-01''"
    by (simp add: beforeT_def str_def)
  have kept: "februaryEdge\<lparr>dailyReports :=
              filter (\<lambda>r. \<not> daily_id r < str ''2024-02-01'') (dailyReports februaryEdge)\<rparr>
     = \<lparr>available = True, dailyReports = [dailyOn ''2024-02-01'' ''First of February''],
        yearlyReports = [yearlyOf ''2023'']\<rparr>"
    by (simp add: februaryEdge_def dailyOn_def str_def)
  show ?thesis
    using cleanupOldReports_boundary [OF av, of "str ''2024-02-01T00:00:00.000Z''"] av
    unfolding bound kept by blast
qed

lemma cleanupOldReports_invalid: "cleanupOldReports db InvalidDate = (Inl InvalidTimeValue, db)"
  by (simp add: cleanupOldReports_def toISOString_def)

lemma cleanupOldReports_unavailable:
  "\<not> available db \<Longrightarrow> cleanupOldReports db (Date isoString) = (Inl ErrorOpeningDatabase, db)"
  by (simp add: cleanupOldReports_def toISOString_def Let_def search_unavailable)

section \<open>generateYearlyReport\<close>



lemma generateYearlyReport_unavailable:
  "\<not> available db \<Longrightarrow> generateYearlyReport db yr = (Inl ErrorOpeningDatabase, db)"
  by (simp add: generateYearlyReport_def getDailyReportsByYear_def Let_def search_unavailable)

section \<open>importReports\<close>

lemma addEach_Some:
  "addEach keyOf s items = Some s' \<Longrightarrow>
     set s' = set s \<union> set items \<and> distinct (map keyOf items) \<and>
     keyOf ` set items \<inter> keyOf ` set s = {} \<and> (store_inv keyOf s \<longrightarrow> store_inv keyOf s')"
proof (induction items arbitrary: s)
  case Nil
  then show ?case by simp
next
  case (Cons x items)
  from Cons.prems obtain s1 where s1: "store_add keyOf s x = Some s1"
    and rest: "addEach keyOf s1 items = Some s'"
    by (auto split: option.splits)
  have new: "keyOf x \<notin> keyOf ` set s"
    using s1 by (auto simp: store_add_def store_get_None_iff split: if_splits)
  have set1: "set s1 = insert x (set s)"
    using s1 by (rule set_store_add)
  from Cons.IH[OF rest] show ?case
    using new set1 store_inv_add[OF _ s1] by auto
qed

lemma addEach_succeeds:
  "distinct (map keyOf items) \<Longrightarrow> keyOf ` set items \<inter> keyOf ` set s = {} \<Longrightarrow>
     \<exists>s'. addEach keyOf s items = Some s'"
proof (induction items arbitrary: s)
  case Nil
  show ?case by simp
next
  case (Cons x items)
  have new: "store_get keyOf s (keyOf x) = None"
    using Cons.prems(2) by (auto simp: store_get_None_iff)
  have "keyOf ` set items \<inter> keyOf ` set (insort_key keyOf x s) = {}"
    using Cons.prems by (auto simp: set_insort_key)
  with Cons.IH[of "insort_key keyOf x s"] Cons.prems(1) show ?case
    by (simp add: store_add_def new)
qed

lemma clearThenAdd_eq:
  "clearThenAdd av keyOf s items =
     (if av then (case addEach keyOf [] items of
                    None \<Rightarrow> (Inl ErrorInBulkAdd, [])
                  | Some s' \<Rightarrow> (Inr (), s'))
      else (Inl ErrorOpeningDatabase, s))"
  by (simp add: clearThenAdd_def clear_def addMultiple_def connect_def split: option.splits)

lemma replaceStore_skips:
  "array = None \<or> array = Some [] \<Longrightarrow> replaceStore av keyOf s array = (Inr (), s)"
  by (auto simp: replaceStore_def)

lemma replaceStore_Inr:
  assumes "fst (replaceStore av keyOf s (Some items)) = Inr ()" and "items \<noteq> []"
  shows "set (snd (replaceStore av keyOf s (Some items))) = set items \<and>
         store_inv keyOf (snd (replaceStore av keyOf s (Some items))) \<and>
         distinct (map keyOf items)"
proof -
  from assms obtain s' where s': "addEach keyOf [] items = Some s'"
    and res: "replaceStore av keyOf s (Some items) = (Inr (), s')"
    by (auto simp: replaceStore_def clearThenAdd_eq split: if_splits option.splits)
  have "store_inv keyOf []" by (simp add: store_inv_def)
  with addEach_Some[OF s'] res show ?thesis by simp
qed

lemma replaceStore_succeeds:
  assumes "av" and "\<forall>items. array = Some items \<longrightarrow> distinct (map keyOf items)"
  shows "fst (replaceStore av keyOf s array) = Inr ()"
proof (cases array)
  case None
  then show ?thesis by (simp add: replaceStore_def)
next
  case (Some items)
  then have "distinct (map keyOf items)" using assms(2) by simp
  then obtain s' where "addEach keyOf [] items = Some s'"
    using addEach_succeeds[of keyOf items "[]"] by auto
  then show ?thesis
    using Some assms(1) by (simp add: replaceStore_def clearThenAdd_eq)
qed

text \<open>What a block returns does not depend on the old records when it replaces them.\<close>

lemma replaceStore_fst_indep:
  "fst (replaceStore av keyOf s array) = fst (replaceStore av keyOf s0 array)"
  by (auto simp: replaceStore_def clearThenAdd_eq split: option.splits)

lemma importReports_daily:
  "dailyReports (snd (importReports db d)) =
     snd (replaceStore (available db) daily_id (dailyReports db) (import_dailyReports d))"
  by (auto simp: importReports_def split: prod.splits sum.splits)

lemma importReports_yearly:
  "yearlyReports (snd (importReports db d)) =
     (if isl (fst (replaceStore (available db) daily_id (dailyReports db) (import_dailyReports d)))
      then yearlyReports db
      else snd (replaceStore (available db) yearly_id (yearlyReports db) (import_yearlyReports d)))"
  by (auto simp: importReports_def split: prod.splits sum.splits)

lemma importReports_Inr:
  "fst (importReports db d) = Inr () \<longleftrightarrow>
     fst (replaceStore (available db) daily_id (dailyReports db) (import_dailyReports d)) = Inr () \<and>
     fst (replaceStore (available db) yearly_id (yearlyReports db) (import_yearlyReports d)) = Inr ()"
  by (auto simp: importReports_def split: prod.splits sum.splits)

text \<open>
  C8. \<open>importReports\<close> leaves the daily store as it is when the daily array is absent or
  empty, and the yearly store when the yearly array is; when it succeeds, a store whose
  array is given and not empty holds the records of the array, one per key in key order;
  what it leaves in one store does not depend on the records the other store held. It
  succeeds when the connection is available and no array repeats an id.
\<close>

theorem importReports_replaces:
  "(import_dailyReports d = None \<or> import_dailyReports d = Some [] \<longrightarrow>
      dailyReports (snd (importReports db d)) = dailyReports db) \<and>
   (import_yearlyReports d = None \<or> import_yearlyReports d = Some [] \<longrightarrow>
      yearlyReports (snd (importReports db d)) = yearlyReports db) \<and>
   (\<forall>reports. import_dailyReports d = Some reports \<and> reports \<noteq> [] \<and>
        fst (importReports db d) = Inr () \<longrightarrow>
      set (dailyReports (snd (importReports db d))) = set reports \<and>
      store_inv daily_id (dailyReports (snd (importReports db d))) \<and>
      distinct (map daily_id reports)) \<and>
   (\<forall>reports. import_yearlyReports d = Some reports \<and> reports \<noteq> [] \<and>
        fst (importReports db d) = Inr () \<longrightarrow>
      set (yearlyReports (snd (importReports db d))) = set reports \<and>
      store_inv yearly_id (yearlyReports (snd (importReports db d))) \<and>
      distinct (map yearly_id reports)) \<and>
   (\<forall>others. dailyReports (snd (importReports (db\<lparr>yearlyReports := others\<rparr>) d)) =
      dailyReports (snd (importReports db d))) \<and>
   (\<forall>others. yearlyReports (snd (importReports (db\<lparr>dailyReports := others\<rparr>) d)) =
      yearlyReports (snd (importReports db d))) \<and>
   (available db \<and>
    (\<forall>reports. import_dailyReports d = Some reports \<longrightarrow> distinct (map daily_id reports)) \<and>
    (\<forall>reports. import_yearlyReports d = Some reports \<longrightarrow> distinct (map yearly_id reports)) \<longrightarrow>
      fst (importReports db d) = Inr ())"
proof (intro conjI allI impI)
  assume "import_dailyReports d = None \<or> import_dailyReports d = Some []"
  then show "dailyReports (snd (importReports db d)) = dailyReports db"
    by (simp add: importReports_daily replaceStore_skips)
next
  assume "import_yearlyReports d = None \<or> import_yearlyReports d = Some []"
  then show "yearlyReports (snd (importReports db d)) = yearlyReports db"
    by (simp add: importReports_yearly replaceStore_skips)
next
  fix reports
  assume a: "import_dailyReports d = Some reports \<and> reports \<noteq> [] \<and>
        fst (importReports db d) = Inr ()"
  then have given: "import_dailyReports d = Some reports" and ne: "reports \<noteq> []"
    and "fst (importReports db d) = Inr ()"
    by blast+
  then have "fst (replaceStore (available db) daily_id (dailyReports db) (Some reports)) = Inr ()"
    by (simp add: importReports_Inr)
  from replaceStore_Inr[OF this ne]
  show "set (dailyReports (snd (importReports db d))) = set reports"
    and "store_inv daily_id (dailyReports (snd (importReports db d)))"
    and "distinct (map daily_id reports)"
    by (simp_all add: importReports_daily given)
next
  fix reports
  assume a: "import_yearlyReports d = Some reports \<and> reports \<noteq> [] \<and>
        fst (importReports db d) = Inr ()"
  then have given: "import_yearlyReports d = Some reports" and ne: "reports \<noteq> []"
    and "fst (importReports db d) = Inr ()"
    by blast+
  then have ok: "fst (replaceStore (available db) yearly_id (yearlyReports db) (Some reports)) = Inr ()"
    and "\<not> isl (fst (replaceStore (available db) daily_id (dailyReports db) (import_dailyReports d)))"
    by (simp_all add: importReports_Inr)
  then have "yearlyReports (snd (importReports db d)) =
      snd (replaceStore (available db) yearly_id (yearlyReports db) (Some reports))"
    by (simp add: importReports_yearly given)
  with replaceStore_Inr[OF ok ne]
  show "set (yearlyReports (snd (importReports db d))) = set reports"
    and "store_inv yearly_id (yearlyReports (snd (importReports db d)))"
    and "distinct (map yearly_id reports)"
    by simp_all
next
  fix others
  show "dailyReports (snd (importReports (db\<lparr>yearlyReports := others\<rparr>) d)) =
      dailyReports (snd (importReports db d))"
    by (simp add: importReports_daily)
next
  fix others
  show "yearlyReports (snd (importReports (db\<lparr>dailyReports := others\<rparr>) d)) =
      yearlyReports (snd (importReports db d))"
    using replaceStore_fst_indep[of "available db" daily_id others "import_dailyReports d"
            "dailyReports db"]
    by (simp add: importReports_yearly)
next
  assume "available db \<and>
    (\<forall>reports. import_dailyReports d = Some reports \<longrightarrow> distinct (map daily_id reports)) \<and>
    (\<forall>reports. import_yearlyReports d = Some reports \<longrightarrow> distinct (map yearly_id reports))"
  then show "fst (importReports db d) = Inr ()"
    by (simp add: importReports_Inr replaceStore_succeeds)
qed

theorem importReports_replaces_witness:
  "fst (importReports threeDays
     \<lparr>import_dailyReports = Some [dailyOn ''2025-03-02'' ''Second'', dailyOn ''2025-03-01'' ''First''],
      import_yearlyReports = None\<rparr>) = Inr () \<and>
   set (dailyReports (snd (importReports threeDays
     \<lparr>import_dailyReports = Some [dailyOn ''2025-03-02'' ''Second'', dailyOn ''2025-03-01'' ''First''],
      import_yearlyReports = None\<rparr>)))
     = set [dailyOn ''2025-03-02'' ''Second'', dailyOn ''2025-03-01'' ''First''] \<and>
   yearlyReports (snd (importReports threeDays
     \<lparr>import_dailyReports = Some [dailyOn ''2025-03-02'' ''Second'', dailyOn ''2025-03-01'' ''First''],
      import_yearlyReports = None\<rparr>)) = yearlyReports threeDays \<and>
   fst (importReports threeDays
     \<lparr>import_dailyReports = Some [], import_yearlyReports = Some [yearlyOf ''2024'']\<rparr>) = Inr () \<and>
   dailyReports (snd (importReports threeDays
     \<lparr>import_dailyReports = Some [], import_yearlyReports = Some [yearlyOf ''2024'']\<rparr>))
     = dailyReports threeDays \<and>
   set (yearlyReports (snd (importReports threeDays
     \<lparr>import_dailyReports = Some [], import_yearlyReports = Some [yearlyOf ''2024'']\<rparr>)))
     = set [yearlyOf ''2024'']"
proof -
  let ?new = "[dailyOn ''2025-03-02'' ''Second'', dailyOn ''2025-03-01'' ''First'']"
  let ?d1 = "\<lparr>import_dailyReports = Some ?new, import_yearlyReports = None\<rparr>"
  let ?d2 = "\<lparr>import_dailyReports = Some [], import_yearlyReports = Some [yearlyOf ''2024'']\<rparr>"
  have av: "available threeDays" by (simp add: threeDays_def)
  have d1: "distinct (map daily_id ?new)" by (simp add: dailyOn_def str_def)
  have ok1: "fst (importReports threeDays ?d1) = Inr ()"
    using importReports_replaces [of ?d1 threeDays] av d1 by simp
  have set1: "set (dailyReports (snd (importReports threeDays ?d1))) = set ?new"
    using importReports_replaces [of ?d1 threeDays] ok1 by simp
  have keep1: "yearlyReports (snd (importReports threeDays ?d1)) = yearlyReports threeDays"
    using importReports_replaces [of ?d1 threeDays] by simp
  have ok2: "fst (importReports threeDays ?d2) = Inr ()"
    using importReports_replaces [of ?d2 threeDays] av by simp
  have keep2: "dailyReports (snd (importReports threeDays ?d2)) = dailyReports threeDays"
    using importReports_replaces [of ?d2 threeDays] by simp
  have set2: "set (yearlyReports (snd (importReports threeDays ?d2))) = set [yearlyOf ''2024'']"
    using importReports_replaces [of ?d2 threeDays] ok2 by simp
  show ?thesis
    using ok1 set1 keep1 ok2 keep2 set2 by blast
qed

lemma importReports_repeated_id:
  "importReports threeDays
     \<lparr>import_dailyReports = Some [dailyOn ''2025-03-01'' ''First'', dailyOn ''2025-03-01'' ''Again''],
      import_yearlyReports = Some [yearlyOf ''2024'']\<rparr>
   = (Inl ErrorInBulkAdd, threeDays\<lparr>dailyReports := []\<rparr>)"
  by (simp add: importReports_def replaceStore_def clearThenAdd_eq threeDays_def store_add_def
        store_get_def dailyOn_def)

section \<open>Full-text search\<close>

subsection \<open>The matrix of levenshteinDistance\<close>

lemma editDistance_Nil [simp]: "editDistance [] b = length b"
  by (simp add: editDistance.simps)

lemma editDistance_Nil2 [simp]: "editDistance a [] = length a"
  by (simp add: editDistance.simps)








subsection \<open>Options that differ in the threshold only\<close>

lemma fuzzyLoop_cong:
  "threshold o1 = threshold o2 \<Longrightarrow> fuzzyLoop o1 term words best = fuzzyLoop o2 term words best"
  by (induction words arbitrary: best) auto

lemma getExactMatchScore_cong:
  "caseSensitive o1 = caseSensitive o2 \<Longrightarrow> matchWholeWord o1 = matchWholeWord o2 \<Longrightarrow>
     getExactMatchScore h o1 tx term = getExactMatchScore h o2 tx term"
  by (simp add: getExactMatchScore_def)

lemma getFuzzyMatchScore_cong:
  "caseSensitive o1 = caseSensitive o2 \<Longrightarrow> matchWholeWord o1 = matchWholeWord o2 \<Longrightarrow>
   threshold o1 = threshold o2 \<Longrightarrow>
     getFuzzyMatchScore h o1 tx term = getFuzzyMatchScore h o2 tx term"
  using fuzzyLoop_cong[of o1 o2] getExactMatchScore_cong[of o1 o2]
  by (simp add: getFuzzyMatchScore_def)

lemma scoreTerms_cong:
  assumes "caseSensitive o1 = caseSensitive o2" "matchWholeWord o1 = matchWholeWord o2"
    "fuzzyMatch o1 = fuzzyMatch o2" "threshold o1 = threshold o2"
  shows "scoreTerms h o1 tx terms acc = scoreTerms h o2 tx terms acc"
proof (induction terms arbitrary: acc)
  case Nil
  show ?case by simp
next
  case (Cons t terms)
  show ?case
    using assms getFuzzyMatchScore_cong[of o1 o2 h tx t] getExactMatchScore_cong[of o1 o2 h tx t]
    by (simp add: Cons.IH split: option.splits)
qed

lemma scoreFields_cong:
  assumes "caseSensitive o1 = caseSensitive o2" "matchWholeWord o1 = matchWholeWord o2"
    "fuzzyMatch o1 = fuzzyMatch o2" "threshold o1 = threshold o2"
  shows "scoreFields h o1 fv qts fs acc = scoreFields h o2 fv qts fs acc"
proof (induction fs arbitrary: acc)
  case Nil
  show ?case by simp
next
  case (Cons f fs)
  show ?case
    using scoreTerms_cong[OF assms, of h]
    by (simp add: Cons.IH split: option.splits)
qed

lemma fullTextSearch_cong:
  assumes "caseSensitive o1 = caseSensitive o2" "matchWholeWord o1 = matchWholeWord o2"
    "fuzzyMatch o1 = fuzzyMatch o2" "threshold o1 = threshold o2" "limit o1 = limit o2"
  shows "fullTextSearch h fv av s query fs o1 = fullTextSearch h fv av s query fs o2"
proof -
  have eq: "scoreItem h o1 fv qts fs = scoreItem h o2 fv qts fs" for qts
    using scoreFields_cong[OF assms(1-4), of h] by (auto simp: scoreItem_def)
  show ?thesis
    unfolding fullTextSearch_def assms(1) assms(5) eq by (rule refl)
qed

text \<open>
  C10. A search with \<open>fuzzyMatchThreshold\<close> 0 returns what the same search returns with
  the threshold 0.7, and with no threshold given: the default replaces the 0.
\<close>

theorem threshold_zero_is_default:
  "fullTextSearch h fv av s query fs (opts\<lparr>fuzzyMatchThreshold := Some 0\<rparr>) =
     fullTextSearch h fv av s query fs (opts\<lparr>fuzzyMatchThreshold := Some (7 / 10)\<rparr>) \<and>
   fullTextSearch h fv av s query fs (opts\<lparr>fuzzyMatchThreshold := Some 0\<rparr>) =
     fullTextSearch h fv av s query fs (opts\<lparr>fuzzyMatchThreshold := None\<rparr>)"
  by (intro conjI fullTextSearch_cong) (simp_all add: threshold_def)

lemma zero_threshold_keeps_cutoff:
  "similarityScore (str ''abcdefgh'') (str ''abcdwxyz'') = 1 / 2 \<and>
   getFuzzyMatchScore exampleHost (halfOptions\<lparr>fuzzyMatchThreshold := Some 0\<rparr>)
     (str ''abcdefgh'') (str ''abcdwxyz'') = Some 0"
proof -
  have d: "levenshteinDistance (str ''abcdefgh'') (str ''abcdwxyz'') = 4"
    by code_simp
  have len: "length (str ''abcdwxyz'') = 8" "length (str ''abcdefgh'') = 8"
    by (simp_all add: str_def)
  have sim: "similarityScore (str ''abcdefgh'') (str ''abcdwxyz'') = 1 / 2"
    by (simp add: similarityScore_def d len)
  have words: "splitWs (str ''abcdefgh'') = [str ''abcdefgh'']"
    by (simp add: splitWs_def str_def isWhiteSpace_def)
  show ?thesis
    by (simp add: sim getFuzzyMatchScore_def halfOptions_def Let_def words len threshold_def)
qed

subsection \<open>Results of a search\<close>








subsection \<open>The score of one term\<close>















section \<open>mergeReportData\<close>

lemma orZero_simps [simp]: "orZero None = 0" "orZero (Some n) = n"
  by (simp_all add: orZero_def)

subsection \<open>Slices\<close>





subsection \<open>Activities\<close>





subsection \<open>Categories\<close>









subsection \<open>The merged report\<close>






lemma mergeReportData_example:
  "mergeReportData [workDay 1, workDay 2] =
     \<lparr>pieChart = [\<lparr>name = str ''Work'', slice_value = 3\<rparr>],
      quickReport = [\<lparr>quick_category = str ''Work'', percent = Finite 100\<rparr>],
      detailedReport =
        [\<lparr>category = str ''Work'', activities = [\<lparr>activity = str ''coding'', count = 3\<rparr>]\<rparr>]\<rparr>"
  by (simp add: mergeReportData_def processReport_def addSlice_def addDetail_def addActivity_def
        workDay_def percentOf_def Let_def)

section \<open>The stores stay in key order\<close>

lemma add_keeps_inv:
  "store_inv keyOf s \<Longrightarrow> store_inv keyOf (snd (add av keyOf s r))"
  by (auto simp: add_def connect_def store_inv_add split: option.splits)

lemma put_keeps_inv:
  "store_inv keyOf s \<Longrightarrow> store_inv keyOf (snd (put av keyOf s r))"
  by (auto simp: put_def connect_def store_inv_put)

lemma delete_keeps_inv:
  "store_inv keyOf s \<Longrightarrow> store_inv keyOf (snd (delete av keyOf s k))"
  by (auto simp: delete_def connect_def store_inv_delete)

lemma update_keeps_inv:
  "store_inv keyOf s \<Longrightarrow> store_inv keyOf (snd (update av keyOf s k f))"
  by (auto simp: update_def get_def put_def connect_def Let_def store_inv_put
           split: option.splits)

lemma addDailyReport_keeps_inv:
  "store_inv daily_id (dailyReports db) \<Longrightarrow>
     store_inv daily_id (dailyReports (snd (addDailyReport db r)))"
  using add_keeps_inv[of daily_id "dailyReports db" "available db" r]
  by (auto simp: addDailyReport_def split: prod.splits)

lemma updateDailyReport_keeps_inv:
  "store_inv daily_id (dailyReports db) \<Longrightarrow>
     store_inv daily_id (dailyReports (snd (updateDailyReport db r)))"
  using put_keeps_inv[of daily_id "dailyReports db" "available db" r]
  by (auto simp: updateDailyReport_def split: prod.splits)

lemma deleteDailyReport_keeps_inv:
  "store_inv daily_id (dailyReports db) \<Longrightarrow>
     store_inv daily_id (dailyReports (snd (deleteDailyReport db k)))"
  using delete_keeps_inv[of daily_id "dailyReports db" "available db" k]
  by (auto simp: deleteDailyReport_def split: prod.splits)

section \<open>The range of the yearly scan\<close>

text \<open>
  Without an assumption on the ids: the reports \<open>generateYearlyReport\<close> merges are those
  whose id starts with the year and a hyphen and does not go on with the sentinel.
\<close>

lemma generateYearlyReport_exact:
  assumes "available db"
  shows "fst (generateYearlyReport db yr) = Inl (NoDailyReportsFound yr) \<longleftrightarrow>
           filter (\<lambda>r. prefix (yr @ str ''-'') (daily_id r) \<and>
                        \<not> prefix ((yr @ str ''-'') @ [MAX_CHAR]) (daily_id r))
             (dailyReports db) = []"
  using assms
  by (simp add: generateYearlyReport_def getDailyReportsByYear_def search_range Let_def
        inRange_prefix)

end
